theory Spec2Isabelle
  imports Complex_Main
begin

section \<open>Python values and arithmetic\<close>

text \<open>
  The scripts work on values decoded from JSON. A Python \<open>float\<close> is modelled as an exact
  real number: rounding error, overflow, infinities and NaN are outside this model.
  \<open>bool\<close> is a subclass of \<open>int\<close> in Python, so \<open>isinstance(True, int)\<close> holds and
  \<open>True\<close> counts as \<open>1\<close> in arithmetic.
\<close>

datatype pyval =
    PNone
  | PBool bool
  | PInt int
  | PFloat real
  | PStr string
  | PList "pyval list"
  | PDict "(string \<times> pyval) list"

datatype pyerror = ZeroDivisionError | TypeError | ValueError

type_synonym pydict = "string \<rightharpoonup> pyval"

fun is_int_or_float :: "pyval \<Rightarrow> bool" where
  "is_int_or_float (PBool b) = True"
| "is_int_or_float (PInt i) = True"
| "is_int_or_float (PFloat x) = True"
| "is_int_or_float v = False"

fun is_int :: "pyval \<Rightarrow> bool" where
  "is_int (PBool b) = True"
| "is_int (PInt i) = True"
| "is_int v = False"

text \<open>The numeric value of a number; only used behind an \<open>isinstance\<close> test.\<close>

fun num_of :: "pyval \<Rightarrow> real" where
  "num_of (PBool b) = (if b then 1 else 0)"
| "num_of (PInt i) = of_int i"
| "num_of (PFloat x) = x"
| "num_of v = 0"

fun int_of :: "pyval \<Rightarrow> int" where
  "int_of (PBool b) = (if b then 1 else 0)"
| "int_of (PInt i) = i"
| "int_of v = 0"

text \<open>Truthiness, as \<open>if capacity\<close> and \<open>if capacity_factor\<close> test it.\<close>

fun truthy :: "pyval \<Rightarrow> bool" where
  "truthy PNone = False"
| "truthy (PBool b) = b"
| "truthy (PInt i) = (i \<noteq> 0)"
| "truthy (PFloat x) = (x \<noteq> 0)"
| "truthy (PStr s) = (s \<noteq> [])"
| "truthy (PList l) = (l \<noteq> [])"
| "truthy (PDict d) = (d \<noteq> [])"

text \<open>\<open>v > 0\<close>: an ordering test of a non-number against an \<open>int\<close> raises \<open>TypeError\<close>.\<close>

definition py_gt0 :: "pyval \<Rightarrow> pyerror + bool" where
  "py_gt0 v = (if is_int_or_float v then Inr (0 < num_of v) else Inl TypeError)"

definition py_div :: "real \<Rightarrow> real \<Rightarrow> pyerror + real" where
  "py_div a b = (if b = 0 then Inl ZeroDivisionError else Inr (a / b))"

text \<open>\<open>round(x, n)\<close>: to \<open>n\<close> decimals, a tie going to the even neighbour.\<close>

definition round_half_even :: "real \<Rightarrow> int" where
  "round_half_even x =
     (let f = \<lfloor>x\<rfloor>; d = x - of_int f
      in if d < 1 / 2 then f
         else if 1 / 2 < d then f + 1
         else if even f then f else f + 1)"

definition py_round :: "real \<Rightarrow> nat \<Rightarrow> real" where
  "py_round x n = of_int (round_half_even (x * 10 ^ n)) / 10 ^ n"

section \<open>Input validator (calculate\_lcoe.py)\<close>

record ValidationError =
  code :: string
  message :: string
  field :: string
  received :: pyval
  expected :: string

record LCOEInput =
  capex_usd :: real
  annual_generation_mwh :: real
  project_lifetime_years :: int
  discount_rate :: real
  annual_opex_usd :: real
  annual_fuel_cost_usd :: real
  opex_escalation_rate :: real
  fuel_escalation_rate :: real
  degradation_rate :: real
  capacity_mw :: pyval
  technology :: pyval

definition required_fields :: "(string \<times> string) list" where
  "required_fields =
     [(''capex_usd'', ''Capital expenditure in USD''),
      (''annual_generation_mwh'', ''Annual generation in MWh''),
      (''project_lifetime_years'', ''Project lifetime in years''),
      (''discount_rate'', ''Discount rate (decimal)'')]"

text \<open>The loop over \<open>required_fields\<close>: the first field not in \<open>data\<close> ends it.\<close>

fun check_required :: "pydict \<Rightarrow> (string \<times> string) list \<Rightarrow> ValidationError option" where
  "check_required data [] = None"
| "check_required data ((f, desc) # rest) =
     (if data f = None
      then Some \<lparr>code = ''MISSING_REQUIRED_FIELD'',
                 message = ''Missing required field: '' @ desc,
                 field = f, received = PNone,
                 expected = f @ '' is required''\<rparr>
      else check_required data rest)"

text \<open>\<open>data.get(key)\<close> and \<open>data.get(key, default)\<close>.\<close>

definition dict_get :: "pydict \<Rightarrow> string \<Rightarrow> pyval \<Rightarrow> pyval" where
  "dict_get data k dflt = (case data k of None \<Rightarrow> dflt | Some v \<Rightarrow> v)"

definition validate_input :: "pydict \<Rightarrow> ValidationError + LCOEInput" where
  "validate_input data =
    (case check_required data required_fields of
       Some err \<Rightarrow> Inl err
     | None \<Rightarrow>
    (let capex = dict_get data ''capex_usd'' PNone in
     if \<not> is_int_or_float capex \<or> num_of capex \<le> 0
     then Inl \<lparr>code = ''INVALID_CAPEX'',
               message = ''Capital expenditure must be a positive number'',
               field = ''capex_usd'', received = capex, expected = ''> 0''\<rparr>
     else
    (let gen = dict_get data ''annual_generation_mwh'' PNone in
     if \<not> is_int_or_float gen \<or> num_of gen \<le> 0
     then Inl \<lparr>code = ''INVALID_GENERATION'',
               message = ''Annual generation must be a positive number'',
               field = ''annual_generation_mwh'', received = gen, expected = ''> 0''\<rparr>
     else
    (let lifetime = dict_get data ''project_lifetime_years'' PNone in
     if \<not> is_int lifetime \<or> int_of lifetime < 1 \<or> 50 < int_of lifetime
     then Inl \<lparr>code = ''INVALID_LIFETIME'',
               message = ''Project lifetime must be between 1 and 50 years'',
               field = ''project_lifetime_years'', received = lifetime, expected = ''1-50''\<rparr>
     else
    (let rate = dict_get data ''discount_rate'' PNone in
     if \<not> is_int_or_float rate \<or> num_of rate < 0 \<or> 30 / 100 < num_of rate
     then Inl \<lparr>code = ''INVALID_DISCOUNT_RATE'',
               message = ''Discount rate must be between 0 and 0.30 (0-30%)'',
               field = ''discount_rate'', received = rate, expected = ''0-0.30''\<rparr>
     else
    (let opex = dict_get data ''annual_opex_usd'' (PInt 0) in
     if \<not> is_int_or_float opex \<or> num_of opex < 0
     then Inl \<lparr>code = ''INVALID_OPEX'',
               message = ''Annual OPEX must be non-negative'',
               field = ''annual_opex_usd'', received = opex, expected = ''>= 0''\<rparr>
     else
    (let fuel = dict_get data ''annual_fuel_cost_usd'' (PInt 0) in
     if \<not> is_int_or_float fuel \<or> num_of fuel < 0
     then Inl \<lparr>code = ''INVALID_FUEL_COST'',
               message = ''Annual fuel cost must be non-negative'',
               field = ''annual_fuel_cost_usd'', received = fuel, expected = ''>= 0''\<rparr>
     else
    (let opex_esc = dict_get data ''opex_escalation_rate'' (PFloat (2 / 100)) in
     if \<not> is_int_or_float opex_esc \<or> num_of opex_esc < 0 \<or> 20 / 100 < num_of opex_esc
     then Inl \<lparr>code = ''INVALID_OPEX_ESCALATION'',
               message = ''OPEX escalation rate must be between 0 and 0.20'',
               field = ''opex_escalation_rate'', received = opex_esc, expected = ''0-0.20''\<rparr>
     else
    (let fuel_esc = dict_get data ''fuel_escalation_rate'' (PFloat (2 / 100)) in
     if \<not> is_int_or_float fuel_esc \<or> num_of fuel_esc < 0 \<or> 20 / 100 < num_of fuel_esc
     then Inl \<lparr>code = ''INVALID_FUEL_ESCALATION'',
               message = ''Fuel escalation rate must be between 0 and 0.20'',
               field = ''fuel_escalation_rate'', received = fuel_esc, expected = ''0-0.20''\<rparr>
     else
    (let deg = dict_get data ''degradation_rate'' (PFloat (5 / 1000)) in
     if \<not> is_int_or_float deg \<or> num_of deg < 0 \<or> 10 / 100 < num_of deg
     then Inl \<lparr>code = ''INVALID_DEGRADATION'',
               message = ''Degradation rate must be between 0 and 0.10'',
               field = ''degradation_rate'', received = deg, expected = ''0-0.10''\<rparr>
     else
       Inr \<lparr>capex_usd = num_of capex,
            annual_generation_mwh = num_of gen,
            project_lifetime_years = int_of lifetime,
            discount_rate = num_of rate,
            annual_opex_usd = num_of opex,
            annual_fuel_cost_usd = num_of fuel,
            opex_escalation_rate = num_of opex_esc,
            fuel_escalation_rate = num_of fuel_esc,
            degradation_rate = num_of deg,
            capacity_mw = dict_get data ''capacity_mw'' PNone,
            technology = dict_get data ''technology'' (PStr ''generic'')\<rparr>))))))))))"

section \<open>LCOE engine (calculate\_lcoe.py)\<close>

record AnnualBreakdown =
  year :: nat
  generation_mwh :: real
  opex_usd :: real
  fuel_usd :: real
  total_cost_usd :: real
  discounted_cost_usd :: real
  discounted_generation_mwh :: real
  cumulative_discounted_cost_usd :: real
  cumulative_discounted_generation_mwh :: real

record LCOEResult =
  lcoe_usd_per_mwh :: real
  lcoe_usd_per_kwh :: real
  lcoe_cents_per_kwh :: real
  total_lifecycle_cost_usd :: real
  total_lifetime_generation_mwh :: real
  npv_costs_usd :: real
  npv_generation_mwh :: real
  capacity_factor :: "real option"
  annual_breakdown :: "AnnualBreakdown list"
  inputs_summary :: LCOEInput

text \<open>The accumulators of the year-by-year loop.\<close>

record lcoe_acc =
  acc_breakdown :: "AnnualBreakdown list"
  total_lifecycle_cost :: real
  total_generation :: real
  npv_costs :: real
  npv_generation :: real
  cumulative_discounted_cost :: real
  cumulative_discounted_gen :: real

definition lcoe_init :: "LCOEInput \<Rightarrow> lcoe_acc" where
  "lcoe_init inputs =
     \<lparr>acc_breakdown = [],
      total_lifecycle_cost = capex_usd inputs,
      total_generation = 0,
      npv_costs = capex_usd inputs,
      npv_generation = 0,
      cumulative_discounted_cost = capex_usd inputs,
      cumulative_discounted_gen = 0\<rparr>"

text \<open>One pass of the loop body for year \<open>y\<close>; both divisions can raise.\<close>

definition lcoe_year :: "LCOEInput \<Rightarrow> lcoe_acc \<Rightarrow> nat \<Rightarrow> pyerror + lcoe_acc" where
  "lcoe_year inputs acc y =
    (let generation = annual_generation_mwh inputs * (1 - degradation_rate inputs) ^ (y - 1);
         opex = annual_opex_usd inputs * (1 + opex_escalation_rate inputs) ^ (y - 1);
         fuel = annual_fuel_cost_usd inputs * (1 + fuel_escalation_rate inputs) ^ (y - 1);
         total_cost = opex + fuel;
         discount_factor = (1 + discount_rate inputs) ^ y
     in case py_div total_cost discount_factor of
          Inl e \<Rightarrow> Inl e
        | Inr discounted_cost \<Rightarrow>
       (case py_div generation discount_factor of
          Inl e \<Rightarrow> Inl e
        | Inr discounted_gen \<Rightarrow>
          Inr \<lparr>acc_breakdown = acc_breakdown acc @
                 [\<lparr>year = y,
                   generation_mwh = py_round generation 2,
                   opex_usd = py_round opex 2,
                   fuel_usd = py_round fuel 2,
                   total_cost_usd = py_round total_cost 2,
                   discounted_cost_usd = py_round discounted_cost 2,
                   discounted_generation_mwh = py_round discounted_gen 2,
                   cumulative_discounted_cost_usd =
                     py_round (cumulative_discounted_cost acc + discounted_cost) 2,
                   cumulative_discounted_generation_mwh =
                     py_round (cumulative_discounted_gen acc + discounted_gen) 2\<rparr>],
               total_lifecycle_cost = total_lifecycle_cost acc + total_cost,
               total_generation = total_generation acc + generation,
               npv_costs = npv_costs acc + discounted_cost,
               npv_generation = npv_generation acc + discounted_gen,
               cumulative_discounted_cost = cumulative_discounted_cost acc + discounted_cost,
               cumulative_discounted_gen = cumulative_discounted_gen acc + discounted_gen\<rparr>))"

fun lcoe_loop :: "LCOEInput \<Rightarrow> lcoe_acc \<Rightarrow> nat list \<Rightarrow> pyerror + lcoe_acc" where
  "lcoe_loop inputs acc [] = Inr acc"
| "lcoe_loop inputs acc (y # ys) =
     (case lcoe_year inputs acc y of
        Inl e \<Rightarrow> Inl e
      | Inr acc' \<Rightarrow> lcoe_loop inputs acc' ys)"

text \<open>\<open>range(1, lifetime + 1)\<close>, empty when \<open>lifetime < 1\<close>.\<close>

definition years :: "int \<Rightarrow> nat list" where
  "years lifetime = [1 ..< Suc (nat lifetime)]"

text \<open>
  The capacity factor before rounding: \<open>None\<close> unless \<open>capacity and capacity > 0\<close>.
\<close>

definition capacity_factor_raw :: "LCOEInput \<Rightarrow> pyerror + real option" where
  "capacity_factor_raw inputs =
    (let capacity = capacity_mw inputs in
     if \<not> truthy capacity then Inr None
     else case py_gt0 capacity of
            Inl e \<Rightarrow> Inl e
          | Inr positive \<Rightarrow>
             if \<not> positive then Inr None
             else
              (let hours_per_year = 8760;
                   max_generation = num_of capacity * hours_per_year
               in case py_div (annual_generation_mwh inputs) max_generation of
                    Inl e \<Rightarrow> Inl e
                  | Inr q \<Rightarrow> Inr (Some (q * 100))))"

definition calculate_lcoe :: "LCOEInput \<Rightarrow> pyerror + LCOEResult" where
  "calculate_lcoe inputs =
    (case lcoe_loop inputs (lcoe_init inputs) (years (project_lifetime_years inputs)) of
       Inl e \<Rightarrow> Inl e
     | Inr acc \<Rightarrow>
    (case (if 0 < npv_generation acc then py_div (npv_costs acc) (npv_generation acc)
           else Inr 0) of
       Inl e \<Rightarrow> Inl e
     | Inr lcoe_per_mwh \<Rightarrow>
    (let lcoe_per_kwh = lcoe_per_mwh / 1000 in
     case capacity_factor_raw inputs of
       Inl e \<Rightarrow> Inl e
     | Inr cf \<Rightarrow>
       Inr \<lparr>lcoe_usd_per_mwh = py_round lcoe_per_mwh 2,
            lcoe_usd_per_kwh = py_round lcoe_per_kwh 5,
            lcoe_cents_per_kwh = py_round (lcoe_per_kwh * 100) 2,
            total_lifecycle_cost_usd = py_round (total_lifecycle_cost acc) 2,
            total_lifetime_generation_mwh = py_round (total_generation acc) 2,
            npv_costs_usd = py_round (npv_costs acc) 2,
            npv_generation_mwh = py_round (npv_generation acc) 2,
            capacity_factor =
              (case cf of None \<Rightarrow> None
               | Some c \<Rightarrow> if c \<noteq> 0 then Some (py_round c 1) else None),
            annual_breakdown = acc_breakdown acc,
            inputs_summary = inputs\<rparr>)))"

section \<open>Project comparator (compare\_projects.py)\<close>

record failed_project =
  f_source :: pyval
  f_error :: ValidationError
  f_technology :: pyval

record analyzed_project =
  p_source :: pyval
  p_technology :: pyval
  p_capacity_mw :: pyval
  p_lcoe_usd_per_mwh :: real
  p_lcoe_usd_per_kwh :: real
  p_lcoe_cents_per_kwh :: real
  p_capex_usd :: real
  p_capex_per_mw :: "real option"
  p_project_lifetime_years :: int
  p_total_lifecycle_cost_usd :: real
  p_total_lifetime_generation_mwh :: real
  p_npv_costs_usd :: real
  p_capacity_factor :: "real option"
  p_discount_rate :: real

text \<open>A ranked project is the analysed project with the three keys the ranking adds.\<close>

record ranked_project = analyzed_project +
  rank :: nat
  lcoe_vs_best_pct :: real
  lcoe_vs_avg_pct :: real

text \<open>
  \<open>capex / capacity if capacity else None\<close>: a truthy capacity that is not a number cannot
  divide a float.
\<close>

definition capex_per_mw_of :: "LCOEInput \<Rightarrow> pyerror + real option" where
  "capex_per_mw_of validated =
     (if truthy (capacity_mw validated)
      then (if is_int_or_float (capacity_mw validated)
            then (case py_div (capex_usd validated) (num_of (capacity_mw validated)) of
                    Inl e \<Rightarrow> Inl e | Inr q \<Rightarrow> Inr (Some q))
            else Inl TypeError)
      else Inr None)"

definition analyze_project :: "pydict \<Rightarrow> pyerror + (failed_project + analyzed_project)" where
  "analyze_project project0 =
    (let source = dict_get project0 ''_source'' (PStr ''unknown'');
         project = project0(''_source'' := None)
     in case validate_input project of
          Inl err \<Rightarrow>
            Inr (Inl \<lparr>f_source = source, f_error = err,
                      f_technology = dict_get project ''technology'' (PStr ''unknown'')\<rparr>)
        | Inr validated \<Rightarrow>
           (case calculate_lcoe validated of
              Inl e \<Rightarrow> Inl e
            | Inr result \<Rightarrow>
               (case capex_per_mw_of validated of
                  Inl e \<Rightarrow> Inl e
                | Inr per_mw \<Rightarrow>
                   Inr (Inr \<lparr>p_source = source,
                             p_technology = technology validated,
                             p_capacity_mw = capacity_mw validated,
                             p_lcoe_usd_per_mwh = lcoe_usd_per_mwh result,
                             p_lcoe_usd_per_kwh = lcoe_usd_per_kwh result,
                             p_lcoe_cents_per_kwh = lcoe_cents_per_kwh result,
                             p_capex_usd = capex_usd validated,
                             p_capex_per_mw = per_mw,
                             p_project_lifetime_years = project_lifetime_years validated,
                             p_total_lifecycle_cost_usd = total_lifecycle_cost_usd result,
                             p_total_lifetime_generation_mwh =
                               total_lifetime_generation_mwh result,
                             p_npv_costs_usd = npv_costs_usd result,
                             p_capacity_factor = capacity_factor result,
                             p_discount_rate = discount_rate validated\<rparr>))))"

text \<open>The list comprehension over the projects: the first exception ends it.\<close>

fun analyze_all :: "pydict list \<Rightarrow> pyerror + (failed_project + analyzed_project) list" where
  "analyze_all [] = Inr []"
| "analyze_all (p # ps) =
     (case analyze_project p of
        Inl e \<Rightarrow> Inl e
      | Inr a \<Rightarrow> (case analyze_all ps of Inl e \<Rightarrow> Inl e | Inr as \<Rightarrow> Inr (a # as)))"

fun successes :: "(failed_project + analyzed_project) list \<Rightarrow> analyzed_project list" where
  "successes [] = []"
| "successes (Inl f # as) = successes as"
| "successes (Inr s # as) = s # successes as"

fun failures :: "(failed_project + analyzed_project) list \<Rightarrow> failed_project list" where
  "failures [] = []"
| "failures (Inl f # as) = f # failures as"
| "failures (Inr s # as) = failures as"

text \<open>
  \<open>round((x - base) / base * 100, 1) if base > 0 else 0\<close>, the guard of both relative
  metrics.
\<close>

definition pct_vs :: "real \<Rightarrow> real \<Rightarrow> pyerror + real" where
  "pct_vs x base =
     (if 0 < base
      then (case py_div (x - base) base of
              Inl e \<Rightarrow> Inl e | Inr q \<Rightarrow> Inr (py_round (q * 100) 1))
      else Inr 0)"

text \<open>
  The two loops over \<open>ranked\<close>: \<open>enumerate\<close> numbers the sorted projects from 1, then each
  gets its distance to the best and to the mean.
\<close>

fun add_metrics ::
  "real \<Rightarrow> real \<Rightarrow> nat \<Rightarrow> analyzed_project list \<Rightarrow> pyerror + ranked_project list" where
  "add_metrics best_lcoe avg_lcoe i [] = Inr []"
| "add_metrics best_lcoe avg_lcoe i (proj # rest) =
     (case pct_vs (p_lcoe_usd_per_mwh proj) best_lcoe of
        Inl e \<Rightarrow> Inl e
      | Inr vs_best \<Rightarrow>
     (case pct_vs (p_lcoe_usd_per_mwh proj) avg_lcoe of
        Inl e \<Rightarrow> Inl e
      | Inr vs_avg \<Rightarrow>
     (case add_metrics best_lcoe avg_lcoe (Suc i) rest of
        Inl e \<Rightarrow> Inl e
      | Inr rs \<Rightarrow>
          Inr (analyzed_project.extend proj
                 \<lparr>rank = i + 1, lcoe_vs_best_pct = vs_best, lcoe_vs_avg_pct = vs_avg\<rparr>
               # rs))))"

text \<open>\<open>min\<close> and \<open>max\<close> of a list that the caller knows to be non-empty.\<close>

fun list_min :: "real \<Rightarrow> real list \<Rightarrow> real" where
  "list_min m [] = m"
| "list_min m (x # xs) = list_min (if x < m then x else m) xs"

fun list_max :: "real \<Rightarrow> real list \<Rightarrow> real" where
  "list_max m [] = m"
| "list_max m (x # xs) = list_max (if m < x then x else m) xs"

text \<open>\<open>min(projects, key = ...)\<close>: the first project with the least key.\<close>

fun min_by_lcoe :: "'a analyzed_project_scheme \<Rightarrow> 'a analyzed_project_scheme list
    \<Rightarrow> 'a analyzed_project_scheme" where
  "min_by_lcoe m [] = m"
| "min_by_lcoe m (x # xs) =
     min_by_lcoe (if p_lcoe_usd_per_mwh x < p_lcoe_usd_per_mwh m then x else m) xs"

text \<open>
  Dictionary keys: lists and dictionaries are unhashable, numbers are equal as keys when
  their values are.
\<close>

fun hashable :: "pyval \<Rightarrow> bool" where
  "hashable (PList l) = False"
| "hashable (PDict d) = False"
| "hashable v = True"

definition py_key_eq :: "pyval \<Rightarrow> pyval \<Rightarrow> bool" where
  "py_key_eq a b =
     (if is_int_or_float a \<and> is_int_or_float b then num_of a = num_of b
      else a = b)"

fun group_insert ::
  "(pyval \<times> 'a list) list \<Rightarrow> pyval \<Rightarrow> 'a \<Rightarrow> (pyval \<times> 'a list) list" where
  "group_insert [] tech proj = [(tech, [proj])]"
| "group_insert ((k, ps) # rest) tech proj =
     (if py_key_eq k tech then (k, ps @ [proj]) # rest
      else (k, ps) # group_insert rest tech proj)"

text \<open>
  The grouping loop runs over \<open>successful\<close>, whose dictionaries are the ones \<open>ranked\<close> holds;
  it and the summary read only the technology, the LCOE and the source, which the ranking
  leaves as they were.
\<close>

fun group_by_technology ::
  "(pyval \<times> analyzed_project list) list \<Rightarrow> analyzed_project list
     \<Rightarrow> pyerror + (pyval \<times> analyzed_project list) list" where
  "group_by_technology by_technology [] = Inr by_technology"
| "group_by_technology by_technology (proj # rest) =
     (if hashable (p_technology proj)
      then group_by_technology (group_insert by_technology (p_technology proj) proj) rest
      else Inl TypeError)"

record tech_stats =
  ts_count :: nat
  ts_avg_lcoe_usd_per_mwh :: real
  ts_min_lcoe_usd_per_mwh :: real
  ts_max_lcoe_usd_per_mwh :: real
  ts_best_project :: pyval

definition tech_stats_of :: "analyzed_project list \<Rightarrow> pyerror + tech_stats" where
  "tech_stats_of tech_projects =
     (let tech_lcoes = map p_lcoe_usd_per_mwh tech_projects in
      case py_div (sum_list tech_lcoes) (of_nat (length tech_lcoes)) of
        Inl e \<Rightarrow> Inl e
      | Inr avg \<Rightarrow>
         (case tech_projects of
            [] \<Rightarrow> Inl ValueError
          | first # others \<Rightarrow>
             Inr \<lparr>ts_count = length tech_projects,
                  ts_avg_lcoe_usd_per_mwh = py_round avg 2,
                  ts_min_lcoe_usd_per_mwh =
                    py_round (list_min (p_lcoe_usd_per_mwh first) (tl tech_lcoes)) 2,
                  ts_max_lcoe_usd_per_mwh =
                    py_round (list_max (p_lcoe_usd_per_mwh first) (tl tech_lcoes)) 2,
                  ts_best_project = p_source (min_by_lcoe first others)\<rparr>))"

fun tech_summary_of ::
  "(pyval \<times> analyzed_project list) list \<Rightarrow> pyerror + (pyval \<times> tech_stats) list" where
  "tech_summary_of [] = Inr []"
| "tech_summary_of ((tech, tech_projects) # rest) =
     (case tech_stats_of tech_projects of
        Inl e \<Rightarrow> Inl e
      | Inr st \<Rightarrow>
         (case tech_summary_of rest of
            Inl e \<Rightarrow> Inl e
          | Inr sts \<Rightarrow> Inr ((tech, st) # sts)))"

text \<open>
  A recommendation carries the values its texts are formatted from, not the texts:
  what can fail in \<open>generate_recommendations\<close> is the arithmetic inside the f-strings and
  the \<open>join\<close> of the outliers' sources. \<open>Investment\<close> holds the best project's technology,
  source and LCOE, then its advantage over the worst and that advantage in percent of the
  worst; \<open>Portfolio\<close> the dearest and the cheapest technology, the dearest mean, the gap in
  percent of the cheapest mean, and the gap; \<open>Review\<close> the number of outliers and their
  sources.
\<close>

datatype recommendation =
    Investment pyval pyval real real real
  | Portfolio pyval pyval real real real
  | Review nat "string list"

text \<open>\<open>', '.join(...)\<close> needs every source to be a string.\<close>

fun source_strings :: "pyval list \<Rightarrow> pyerror + string list" where
  "source_strings [] = Inr []"
| "source_strings (PStr s # rest) =
     (case source_strings rest of Inl e \<Rightarrow> Inl e | Inr ss \<Rightarrow> Inr (s # ss))"
| "source_strings (v # rest) = Inl TypeError"

definition investment_recommendation ::
  "ranked_project \<Rightarrow> ranked_project \<Rightarrow> pyerror + recommendation" where
  "investment_recommendation best worst =
     (case py_div (p_lcoe_usd_per_mwh worst - p_lcoe_usd_per_mwh best)
                  (p_lcoe_usd_per_mwh worst) of
        Inl e \<Rightarrow> Inl e
      | Inr q \<Rightarrow>
          Inr (Investment (p_technology best) (p_source best) (p_lcoe_usd_per_mwh best)
                 (py_round (p_lcoe_usd_per_mwh worst - p_lcoe_usd_per_mwh best) 2)
                 (py_round (q * 100) 1)))"

definition portfolio_recommendation ::
  "(pyval \<times> tech_stats) list \<Rightarrow> pyerror + recommendation list" where
  "portfolio_recommendation tech_summary =
     (if 1 < length tech_summary
      then
        (let tech_lcoes =
               sort_key snd (map (\<lambda>(t, s). (t, ts_avg_lcoe_usd_per_mwh s)) tech_summary);
             best_tech = fst (hd tech_lcoes);
             best_tech_lcoe = snd (hd tech_lcoes);
             worst_tech = fst (last tech_lcoes);
             worst_tech_lcoe = snd (last tech_lcoes)
         in if best_tech_lcoe * (12 / 10) < worst_tech_lcoe
            then (case py_div (worst_tech_lcoe - best_tech_lcoe) best_tech_lcoe of
                    Inl e \<Rightarrow> Inl e
                  | Inr q \<Rightarrow>
                      Inr [Portfolio worst_tech best_tech (py_round worst_tech_lcoe 2)
                             (py_round (q * 100) 1)
                             (py_round (worst_tech_lcoe - best_tech_lcoe) 2)])
            else Inr [])
      else Inr [])"

definition review_recommendation :: "ranked_project list \<Rightarrow> pyerror + recommendation list" where
  "review_recommendation ranked =
     (case py_div (sum_list (map p_lcoe_usd_per_mwh ranked)) (of_nat (length ranked)) of
        Inl e \<Rightarrow> Inl e
      | Inr avg_lcoe \<Rightarrow>
         (let outliers = filter (\<lambda>p. avg_lcoe * (13 / 10) < p_lcoe_usd_per_mwh p) ranked in
          if outliers \<noteq> []
          then (case source_strings (map p_source outliers) of
                  Inl e \<Rightarrow> Inl e
                | Inr names \<Rightarrow> Inr [Review (length outliers) names])
          else Inr []))"

definition generate_recommendations ::
  "ranked_project list \<Rightarrow> (pyval \<times> tech_stats) list \<Rightarrow> pyerror + recommendation list" where
  "generate_recommendations ranked tech_summary =
     (if ranked = [] then Inr []
      else
        (case investment_recommendation (hd ranked) (last ranked) of
           Inl e \<Rightarrow> Inl e
         | Inr r1 \<Rightarrow>
        (case portfolio_recommendation tech_summary of
           Inl e \<Rightarrow> Inl e
         | Inr r2 \<Rightarrow>
        (case review_recommendation ranked of
           Inl e \<Rightarrow> Inl e
         | Inr r3 \<Rightarrow> Inr (r1 # r2 @ r3)))))"

record comparison_failure =
  cf_code :: string
  cf_message :: string
  cf_failed_projects :: "failed_project list"

record comparison_statistics =
  st_avg_lcoe_usd_per_mwh :: real
  st_min_lcoe_usd_per_mwh :: real
  st_max_lcoe_usd_per_mwh :: real
  st_lcoe_spread_usd_per_mwh :: real
  st_lcoe_spread_pct :: real

record comparison_bundle =
  total_projects :: nat
  analyzed_successfully :: nat
  failed_to_analyze :: nat
  best_project_source :: pyval
  best_project_technology :: pyval
  best_project_lcoe_usd_per_mwh :: real
  statistics :: comparison_statistics
  by_technology :: "(pyval \<times> tech_stats) list"
  rankings :: "ranked_project list"
  recommendations :: "recommendation list"
  failed_projects :: "failed_project list option"

definition spread_pct :: "real \<Rightarrow> real \<Rightarrow> pyerror + real" where
  "spread_pct max_lcoe min_lcoe =
     (if 0 < min_lcoe
      then (case py_div (max_lcoe - min_lcoe) min_lcoe of
              Inl e \<Rightarrow> Inl e | Inr q \<Rightarrow> Inr (py_round (q * 100) 1))
      else Inr 0)"

definition compare_projects ::
  "pydict list \<Rightarrow> pyerror + (comparison_failure + comparison_bundle)" where
  "compare_projects projects =
    (case analyze_all projects of
       Inl e \<Rightarrow> Inl e
     | Inr analyzed \<Rightarrow>
    (let successful = successes analyzed; failed = failures analyzed in
     case successful of
       [] \<Rightarrow>
         Inr (Inl \<lparr>cf_code = ''NO_VALID_PROJECTS'',
                   cf_message = ''No projects could be analyzed successfully'',
                   cf_failed_projects = failed\<rparr>)
     | first # others \<Rightarrow>
    (let sorted_projects = sort_key p_lcoe_usd_per_mwh successful;
         lcoes = map p_lcoe_usd_per_mwh successful
     in case py_div (sum_list lcoes) (of_nat (length lcoes)) of
          Inl e \<Rightarrow> Inl e
        | Inr avg_lcoe \<Rightarrow>
    (let min_lcoe = list_min (p_lcoe_usd_per_mwh first) (tl lcoes);
         max_lcoe = list_max (p_lcoe_usd_per_mwh first) (tl lcoes);
         best_lcoe = p_lcoe_usd_per_mwh (hd sorted_projects)
     in case add_metrics best_lcoe avg_lcoe 0 sorted_projects of
          Inl e \<Rightarrow> Inl e
        | Inr ranked \<Rightarrow>
    (case group_by_technology [] successful of
       Inl e \<Rightarrow> Inl e
     | Inr groups \<Rightarrow>
    (case tech_summary_of groups of
       Inl e \<Rightarrow> Inl e
     | Inr tech_summary \<Rightarrow>
    (case generate_recommendations ranked tech_summary of
       Inl e \<Rightarrow> Inl e
     | Inr recs \<Rightarrow>
    (case spread_pct max_lcoe min_lcoe of
       Inl e \<Rightarrow> Inl e
     | Inr spread \<Rightarrow>
       Inr (Inr \<lparr>total_projects = length projects,
                 analyzed_successfully = length successful,
                 failed_to_analyze = length failed,
                 best_project_source = p_source (hd ranked),
                 best_project_technology = p_technology (hd ranked),
                 best_project_lcoe_usd_per_mwh = p_lcoe_usd_per_mwh (hd ranked),
                 statistics =
                   \<lparr>st_avg_lcoe_usd_per_mwh = py_round avg_lcoe 2,
                    st_min_lcoe_usd_per_mwh = py_round min_lcoe 2,
                    st_max_lcoe_usd_per_mwh = py_round max_lcoe 2,
                    st_lcoe_spread_usd_per_mwh = py_round (max_lcoe - min_lcoe) 2,
                    st_lcoe_spread_pct = spread\<rparr>,
                 by_technology = tech_summary,
                 rankings = ranked,
                 recommendations = recs,
                 failed_projects = (if failed \<noteq> [] then Some failed else None)\<rparr>)))))))))"

section \<open>Sensitivity analysis (sensitivity\_analysis.py)\<close>























section \<open>Definitions used in the statements and proofs\<close>

subsection \<open>Closed forms of the engine and sample projects\<close>

text \<open>
  What year \<open>y\<close> of the loop adds (the degraded generation, the escalated costs), the
  sums the loop accumulates over \<open>range(1, lifetime + 1)\<close>, and the quotient before rounding.
  \<open>capacity_typed\<close> is the declared type of \<open>capacity_mw\<close>, \<open>Optional[float]\<close>: absent or
  a number.
\<close>

definition gen_at :: "LCOEInput \<Rightarrow> nat \<Rightarrow> real" where
  "gen_at p y = annual_generation_mwh p * (1 - degradation_rate p) ^ (y - 1)"

definition cost_at :: "LCOEInput \<Rightarrow> nat \<Rightarrow> real" where
  "cost_at p y = annual_opex_usd p * (1 + opex_escalation_rate p) ^ (y - 1)
               + annual_fuel_cost_usd p * (1 + fuel_escalation_rate p) ^ (y - 1)"

definition npv_generation_sum :: "LCOEInput \<Rightarrow> real" where
  "npv_generation_sum p =
     (\<Sum>y\<leftarrow>years (project_lifetime_years p). gen_at p y / (1 + discount_rate p) ^ y)"

definition npv_costs_sum :: "LCOEInput \<Rightarrow> real" where
  "npv_costs_sum p = capex_usd p +
     (\<Sum>y\<leftarrow>years (project_lifetime_years p). cost_at p y / (1 + discount_rate p) ^ y)"

definition lcoe_unrounded :: "LCOEInput \<Rightarrow> real" where
  "lcoe_unrounded p =
     (if 0 < npv_generation_sum p then npv_costs_sum p / npv_generation_sum p else 0)"

definition capacity_typed :: "pyval \<Rightarrow> bool" where
  "capacity_typed v = (v = PNone \<or> is_int_or_float v)"

definition capacity_positive :: "pyval \<Rightarrow> bool" where
  "capacity_positive v = (is_int_or_float v \<and> 0 < num_of v)"

definition simple_project :: pydict where
  "simple_project = map_of
     [(''capex_usd'', PInt 1000000), (''annual_generation_mwh'', PInt 2000),
      (''project_lifetime_years'', PInt 10), (''discount_rate'', PFloat 0),
      (''annual_opex_usd'', PInt 0), (''annual_fuel_cost_usd'', PInt 0),
      (''opex_escalation_rate'', PInt 0), (''fuel_escalation_rate'', PInt 0),
      (''degradation_rate'', PInt 0), (''technology'', PStr ''test'')]"

definition simple_params :: LCOEInput where
  "simple_params =
     \<lparr>capex_usd = 1000000, annual_generation_mwh = 2000, project_lifetime_years = 10,
      discount_rate = 0, annual_opex_usd = 0, annual_fuel_cost_usd = 0,
      opex_escalation_rate = 0, fuel_escalation_rate = 0, degradation_rate = 0,
      capacity_mw = PNone, technology = PStr ''test''\<rparr>"



definition no_generation_params :: LCOEInput where
  "no_generation_params =
     \<lparr>capex_usd = 1000, annual_generation_mwh = 0, project_lifetime_years = 2,
      discount_rate = 5 / 100, annual_opex_usd = 10, annual_fuel_cost_usd = 0,
      opex_escalation_rate = 2 / 100, fuel_escalation_rate = 2 / 100,
      degradation_rate = 5 / 1000, capacity_mw = PInt 100, technology = PStr ''generic''\<rparr>"

definition wind_project :: pydict where
  "wind_project = map_of
     [(''capex_usd'', PInt 150000000), (''annual_generation_mwh'', PInt 200000),
      (''project_lifetime_years'', PInt 1), (''discount_rate'', PFloat (8 / 100)),
      (''capacity_mw'', PInt 100)]"

definition wind_params :: LCOEInput where
  "wind_params =
     \<lparr>capex_usd = 150000000, annual_generation_mwh = 200000, project_lifetime_years = 1,
      discount_rate = 8 / 100, annual_opex_usd = 0, annual_fuel_cost_usd = 0,
      opex_escalation_rate = 2 / 100, fuel_escalation_rate = 2 / 100,
      degradation_rate = 5 / 1000, capacity_mw = PInt 100, technology = PStr ''generic''\<rparr>"

definition capacity_of :: "pyval option \<Rightarrow> pyval" where
  "capacity_of x = (case x of None \<Rightarrow> PNone | Some v \<Rightarrow> v)"





subsection \<open>The validator as the specification words it\<close>












subsection \<open>Sample batches, ranges and sweeps\<close>

text \<open>
  \<open>arithmetic_values\<close> is the sequence the specification describes for a custom range:
  \<open>min\<close>, \<open>min + step\<close>, ... up to \<open>max\<close> with a tolerance of 0.0001, each rounded to 6
  decimals; \<open>mean_elasticity\<close> is the mean it describes for the elasticity. The tables
  \<open>discount_sweep_floats\<close> and \<open>zero_step_floats\<close> are the builtin \<open>float\<close> on the literals
  of two range strings.
\<close>

definition near_free_project :: pydict where
  "near_free_project = map_of
     [(''capex_usd'', PInt 1), (''annual_generation_mwh'', PInt 1000),
      (''project_lifetime_years'', PInt 1), (''discount_rate'', PInt 0)]"

definition project_with :: "string \<Rightarrow> int \<Rightarrow> pydict" where
  "project_with name capex = map_of
     [(''_source'', PStr name), (''capex_usd'', PInt capex),
      (''annual_generation_mwh'', PInt 10),
      (''project_lifetime_years'', PInt 1), (''discount_rate'', PInt 0)]"

definition comparison_view ::
  "pyerror + (comparison_failure + comparison_bundle)
     \<Rightarrow> pyerror + (string + (pyval \<times> real \<times> nat \<times> real) list)" where
  "comparison_view =
     map_sum id (map_sum cf_code
       (map (\<lambda>r. (p_source r, p_lcoe_usd_per_mwh r, rank r, lcoe_vs_best_pct r)) \<circ> rankings))"










definition near_free_params :: LCOEInput where
  "near_free_params =
     \<lparr>capex_usd = 1, annual_generation_mwh = 1000, project_lifetime_years = 1,
      discount_rate = 0, annual_opex_usd = 0, annual_fuel_cost_usd = 0,
      opex_escalation_rate = 2 / 100, fuel_escalation_rate = 2 / 100,
      degradation_rate = 5 / 1000, capacity_mw = PNone, technology = PStr ''generic''\<rparr>"

definition negative_capacity_project :: pydict where
  "negative_capacity_project = wind_project(''capacity_mw'' \<mapsto> PInt (- 5))"

section \<open>The engine: what the loop computes\<close>

lemma validate_input_ranges:
  assumes "validate_input d = Inr p"
  shows "0 < capex_usd p" "0 < annual_generation_mwh p"
    "1 \<le> project_lifetime_years p" "project_lifetime_years p \<le> 50"
    "0 \<le> discount_rate p" "discount_rate p \<le> 3 / 10"
    "0 \<le> annual_opex_usd p" "0 \<le> annual_fuel_cost_usd p"
    "0 \<le> opex_escalation_rate p" "opex_escalation_rate p \<le> 1 / 5"
    "0 \<le> fuel_escalation_rate p" "fuel_escalation_rate p \<le> 1 / 5"
    "0 \<le> degradation_rate p" "degradation_rate p \<le> 1 / 10"
  using assms
  by (auto simp: validate_input_def Let_def split: option.splits if_splits)

lemma lcoe_year_ok:
  assumes "1 + discount_rate p \<noteq> 0"
  shows "\<exists>acc'. lcoe_year p acc y = Inr acc'
    \<and> npv_generation acc' = npv_generation acc + gen_at p y / (1 + discount_rate p) ^ y
    \<and> npv_costs acc' = npv_costs acc + cost_at p y / (1 + discount_rate p) ^ y
    \<and> length (acc_breakdown acc') = Suc (length (acc_breakdown acc))"
  using assms by (simp add: lcoe_year_def py_div_def Let_def gen_at_def cost_at_def)

lemma lcoe_loop_ok:
  assumes "1 + discount_rate p \<noteq> 0"
  shows "\<exists>acc'. lcoe_loop p acc ys = Inr acc'
    \<and> npv_generation acc' = npv_generation acc + (\<Sum>y\<leftarrow>ys. gen_at p y / (1 + discount_rate p) ^ y)
    \<and> npv_costs acc' = npv_costs acc + (\<Sum>y\<leftarrow>ys. cost_at p y / (1 + discount_rate p) ^ y)
    \<and> length (acc_breakdown acc') = length (acc_breakdown acc) + length ys"
proof (induction ys arbitrary: acc)
  case Nil
  then show ?case by simp
next
  case (Cons y ys)
  from lcoe_year_ok [OF assms, of acc y] obtain a1 where
    a1: "lcoe_year p acc y = Inr a1"
      "npv_generation a1 = npv_generation acc + gen_at p y / (1 + discount_rate p) ^ y"
      "npv_costs a1 = npv_costs acc + cost_at p y / (1 + discount_rate p) ^ y"
      "length (acc_breakdown a1) = Suc (length (acc_breakdown acc))"
    by blast
  from Cons.IH [of a1] obtain a2 where
    a2: "lcoe_loop p a1 ys = Inr a2"
      "npv_generation a2 = npv_generation a1 + (\<Sum>y\<leftarrow>ys. gen_at p y / (1 + discount_rate p) ^ y)"
      "npv_costs a2 = npv_costs a1 + (\<Sum>y\<leftarrow>ys. cost_at p y / (1 + discount_rate p) ^ y)"
      "length (acc_breakdown a2) = length (acc_breakdown a1) + length ys"
    by blast
  show ?case using a1 a2 by simp
qed

lemma lcoe_loop_init:
  assumes "1 + discount_rate p \<noteq> 0"
  shows "\<exists>acc. lcoe_loop p (lcoe_init p) (years (project_lifetime_years p)) = Inr acc
    \<and> npv_generation acc = npv_generation_sum p
    \<and> npv_costs acc = npv_costs_sum p
    \<and> length (acc_breakdown acc) = nat (project_lifetime_years p)"
  using lcoe_loop_ok [OF assms, of "lcoe_init p" "years (project_lifetime_years p)"]
  by (auto simp: npv_generation_sum_def npv_costs_sum_def lcoe_init_def years_def)

lemma capacity_factor_raw_typed:
  assumes "capacity_typed (capacity_mw p)"
  shows "capacity_factor_raw p =
     Inr (if capacity_positive (capacity_mw p)
          then Some (annual_generation_mwh p / (num_of (capacity_mw p) * 8760) * 100)
          else None)"
proof (cases "capacity_mw p")
  case PNone
  then show ?thesis by (simp add: capacity_factor_raw_def capacity_positive_def)
next
  case (PBool b)
  then show ?thesis
    by (simp add: capacity_factor_raw_def capacity_positive_def py_gt0_def py_div_def Let_def)
next
  case (PInt i)
  then show ?thesis
    by (auto simp: capacity_factor_raw_def capacity_positive_def py_gt0_def py_div_def Let_def)
next
  case (PFloat x)
  then show ?thesis
    by (auto simp: capacity_factor_raw_def capacity_positive_def py_gt0_def py_div_def Let_def)
next
  case (PStr s)
  with assms show ?thesis by (simp add: capacity_typed_def)
next
  case (PList l)
  with assms show ?thesis by (simp add: capacity_typed_def)
next
  case (PDict m)
  with assms show ?thesis by (simp add: capacity_typed_def)
qed

lemma capacity_factor_raw_no_zero_division:
  "capacity_factor_raw p \<noteq> Inl ZeroDivisionError"
  by (cases "capacity_mw p")
     (auto simp: capacity_factor_raw_def py_gt0_def py_div_def Let_def split: if_splits)

lemma calculate_lcoe_returns:
  assumes r: "1 + discount_rate p \<noteq> 0" and c: "capacity_typed (capacity_mw p)"
  shows "\<exists>res. calculate_lcoe p = Inr res
    \<and> lcoe_usd_per_mwh res = py_round (lcoe_unrounded p) 2
    \<and> lcoe_usd_per_kwh res = py_round (lcoe_unrounded p / 1000) 5
    \<and> capacity_factor res =
        (if capacity_positive (capacity_mw p)
            \<and> annual_generation_mwh p / (num_of (capacity_mw p) * 8760) * 100 \<noteq> 0
         then Some (py_round (annual_generation_mwh p / (num_of (capacity_mw p) * 8760) * 100) 1)
         else None)
    \<and> length (annual_breakdown res) = nat (project_lifetime_years p)
    \<and> inputs_summary res = p"
proof -
  from lcoe_loop_init [OF r] obtain acc where
    acc: "lcoe_loop p (lcoe_init p) (years (project_lifetime_years p)) = Inr acc"
      "npv_generation acc = npv_generation_sum p"
      "npv_costs acc = npv_costs_sum p"
      "length (acc_breakdown acc) = nat (project_lifetime_years p)"
    by blast
  show ?thesis
    using acc capacity_factor_raw_typed [OF c]
    by (simp add: calculate_lcoe_def py_div_def lcoe_unrounded_def Let_def)
qed

lemma calculate_lcoe_no_zero_division:
  assumes r: "1 + discount_rate p \<noteq> 0"
  shows "calculate_lcoe p \<noteq> Inl ZeroDivisionError"
proof -
  from lcoe_loop_init [OF r] obtain acc where
    acc: "lcoe_loop p (lcoe_init p) (years (project_lifetime_years p)) = Inr acc"
    by blast
  show ?thesis
    using acc capacity_factor_raw_no_zero_division [of p]
    by (auto simp: calculate_lcoe_def py_div_def Let_def split: sum.splits if_splits)
qed



lemmas validate_eval =
  validate_input_def required_fields_def dict_get_def Let_def

lemmas calculate_eval =
  calculate_lcoe_def years_def lcoe_init_def lcoe_year_def py_div_def py_gt0_def
  capacity_factor_raw_def py_round_def round_half_even_def Let_def upt_rec

lemma validate_simple_project: "validate_input simple_project = Inr simple_params"
  by (simp add: validate_eval simple_project_def simple_params_def)



section \<open>Claims about the engine and the validator\<close>




text \<open>
  C3. On a validated parameter set \<open>calculate_lcoe\<close> never raises \<open>ZeroDivisionError\<close>; and
  on any parameter set, when the loop leaves NPV(generation) at 0 and the function returns,
  the reported \<open>lcoe_usd_per_mwh\<close> is 0.
\<close>

theorem C3_no_division_fault:
  "(validate_input d = Inr p \<longrightarrow> calculate_lcoe p \<noteq> Inl ZeroDivisionError)
   \<and> (lcoe_loop q (lcoe_init q) (years (project_lifetime_years q)) = Inr acc
        \<and> npv_generation acc = 0 \<and> calculate_lcoe q = Inr res
      \<longrightarrow> lcoe_usd_per_mwh res = 0)"
proof (intro conjI impI)
  assume v: "validate_input d = Inr p"
  have "0 \<le> discount_rate p" using validate_input_ranges [OF v] by simp
  then have "1 + discount_rate p \<noteq> 0" by simp
  then show "calculate_lcoe p \<noteq> Inl ZeroDivisionError"
    by (rule calculate_lcoe_no_zero_division)
next
  assume a: "lcoe_loop q (lcoe_init q) (years (project_lifetime_years q)) = Inr acc
        \<and> npv_generation acc = 0 \<and> calculate_lcoe q = Inr res"
  then show "lcoe_usd_per_mwh res = 0"
    by (auto simp: calculate_lcoe_def Let_def py_round_def round_half_even_def
        split: sum.splits)
qed

theorem C3_no_division_fault_witness:
  "validate_input simple_project = Inr simple_params
   \<and> calculate_lcoe simple_params \<noteq> Inl ZeroDivisionError
   \<and> (\<exists>acc. lcoe_loop no_generation_params (lcoe_init no_generation_params)
           (years (project_lifetime_years no_generation_params)) = Inr acc
         \<and> npv_generation acc = 0)
   \<and> map_sum id lcoe_usd_per_mwh (calculate_lcoe no_generation_params) = Inr 0"
proof -
  have nz: "1 + discount_rate no_generation_params \<noteq> 0"
    by (simp add: no_generation_params_def)
  have "\<exists>res. calculate_lcoe no_generation_params = Inr res"
    using calculate_lcoe_returns [OF nz]
    by (simp add: no_generation_params_def capacity_typed_def) blast
  then obtain res where res: "calculate_lcoe no_generation_params = Inr res" ..
  have "npv_generation_sum no_generation_params = 0"
    by (simp add: npv_generation_sum_def gen_at_def no_generation_params_def)
  with lcoe_loop_init [OF nz] obtain acc where
    acc: "lcoe_loop no_generation_params (lcoe_init no_generation_params)
           (years (project_lifetime_years no_generation_params)) = Inr acc"
      "npv_generation acc = 0"
    by auto
  from C3_no_division_fault [of simple_project simple_params no_generation_params acc res]
  show ?thesis using validate_simple_project res acc by auto
qed

lemma validate_wind_project: "validate_input wind_project = Inr wind_params"
  by (simp add: validate_eval wind_project_def wind_params_def)



lemma check_required_capacity:
  "check_required (d(''capacity_mw'' := x)) required_fields = check_required d required_fields"
  by (simp add: required_fields_def)

lemma dict_get_capacity:
  "k \<noteq> ''capacity_mw'' \<Longrightarrow> dict_get (d(''capacity_mw'' := x)) k v = dict_get d k v"
  by (simp add: dict_get_def)

lemma validate_input_capacity:
  "validate_input (d(''capacity_mw'' := x)) =
     map_sum id (\<lambda>p. p\<lparr>capacity_mw := capacity_of x\<rparr>) (validate_input d)"
  unfolding validate_input_def check_required_capacity
  by (simp add: dict_get_capacity Let_def capacity_of_def dict_get_def split: option.splits)

text \<open>
  C10. \<open>validate_input\<close> puts no constraint on \<open>capacity_mw\<close>: when a mapping validates, it
  validates with any other value under \<open>capacity_mw\<close>, or with none, and the validated set
  carries that value unchanged (\<open>None\<close> when absent); and \<open>calculate_lcoe\<close> on a validated
  set whose capacity is absent or a number not above 0 returns with no capacity factor.
\<close>

theorem C10_capacity_unconstrained:
  "(validate_input d = Inr p \<longrightarrow>
      capacity_mw p = capacity_of (d ''capacity_mw'')
      \<and> validate_input (d(''capacity_mw'' := x)) = Inr (p\<lparr>capacity_mw := capacity_of x\<rparr>))
   \<and> (validate_input d = Inr p
       \<and> (capacity_mw p = PNone
           \<or> is_int_or_float (capacity_mw p) \<and> num_of (capacity_mw p) \<le> 0) \<longrightarrow>
       (\<exists>res. calculate_lcoe p = Inr res \<and> capacity_factor res = None))"
proof (intro conjI impI)
  assume v: "validate_input d = Inr p"
  show "validate_input (d(''capacity_mw'' := x)) = Inr (p\<lparr>capacity_mw := capacity_of x\<rparr>)"
    by (simp add: validate_input_capacity v)
  have "validate_input (d(''capacity_mw'' := d ''capacity_mw'')) = Inr p"
    using v by simp
  then have "p\<lparr>capacity_mw := capacity_of (d ''capacity_mw'')\<rparr> = p"
    unfolding validate_input_capacity using v by simp
  then have "capacity_mw (p\<lparr>capacity_mw := capacity_of (d ''capacity_mw'')\<rparr>) = capacity_mw p"
    by simp
  then show "capacity_mw p = capacity_of (d ''capacity_mw'')" by simp
next
  assume a: "validate_input d = Inr p
       \<and> (capacity_mw p = PNone
           \<or> is_int_or_float (capacity_mw p) \<and> num_of (capacity_mw p) \<le> 0)"
  then have v: "validate_input d = Inr p" by simp
  have c: "capacity_typed (capacity_mw p)" using a by (auto simp: capacity_typed_def)
  have n: "\<not> capacity_positive (capacity_mw p)" using a by (auto simp: capacity_positive_def)
  have "0 \<le> discount_rate p" using validate_input_ranges [OF v] by simp
  then have nz: "1 + discount_rate p \<noteq> 0" by simp
  show "\<exists>res. calculate_lcoe p = Inr res \<and> capacity_factor res = None"
    using calculate_lcoe_returns [OF nz c] n by auto
qed

text \<open>
  The wind project with a capacity of -5, and without a capacity: both validate, and the
  capacity factor is absent.
\<close>

theorem C10_capacity_unconstrained_witness:
  "validate_input wind_project = Inr wind_params
   \<and> validate_input negative_capacity_project = Inr (wind_params\<lparr>capacity_mw := PInt (- 5)\<rparr>)
   \<and> validate_input (wind_project(''capacity_mw'' := None))
       = Inr (wind_params\<lparr>capacity_mw := PNone\<rparr>)
   \<and> map_sum id capacity_factor (calculate_lcoe (wind_params\<lparr>capacity_mw := PInt (- 5)\<rparr>))
       = Inr None"
proof -
  let ?p = "wind_params\<lparr>capacity_mw := PInt (- 5)\<rparr>"
  have v: "validate_input wind_project = Inr wind_params" by (rule validate_wind_project)
  from C10_capacity_unconstrained [of wind_project wind_params "Some (PInt (- 5))"] v
  have a: "validate_input negative_capacity_project = Inr ?p"
    by (simp add: negative_capacity_project_def capacity_of_def)
  from C10_capacity_unconstrained [of wind_project wind_params None] v
  have b: "validate_input (wind_project(''capacity_mw'' := None))
       = Inr (wind_params\<lparr>capacity_mw := PNone\<rparr>)"
    by (simp add: capacity_of_def)
  have c: "is_int_or_float (capacity_mw ?p) \<and> num_of (capacity_mw ?p) \<le> 0" by simp
  from C10_capacity_unconstrained [of negative_capacity_project ?p None] a c
  have "\<exists>res. calculate_lcoe ?p = Inr res \<and> capacity_factor res = None"
    by blast
  then show ?thesis using v a b by auto
qed


lemma not_le_real: "(\<not> (a::real) \<le> b) = (b < a)" by auto




lemma gen_at_discount [simp]: "gen_at (p\<lparr>discount_rate := r\<rparr>) y = gen_at p y"
  by (simp add: gen_at_def)

lemma cost_at_discount [simp]: "cost_at (p\<lparr>discount_rate := r\<rparr>) y = cost_at p y"
  by (simp add: cost_at_def)














lemmas compare_eval =
  compare_projects_def analyze_project_def capex_per_mw_of_def pct_vs_def
  tech_stats_of_def investment_recommendation_def portfolio_recommendation_def
  review_recommendation_def generate_recommendations_def spread_pct_def
  analyzed_project.extend_def py_key_eq_def

section \<open>Claims about the comparator\<close>

lemma truncate_extend [simp]:
  "analyzed_project.truncate (analyzed_project.extend p m) = p"
  by (simp add: analyzed_project.truncate_def analyzed_project.extend_def)

lemma lcoe_extend [simp]:
  "p_lcoe_usd_per_mwh (analyzed_project.extend p m) = p_lcoe_usd_per_mwh p"
  by (simp add: analyzed_project.extend_def)





lemma lcoe_truncate [simp]:
  "p_lcoe_usd_per_mwh (analyzed_project.truncate r) = p_lcoe_usd_per_mwh r"
  by (simp add: analyzed_project.truncate_def)


lemmas compare_eval_all =
  compare_eval validate_eval calculate_eval project_with_def comparison_view_def


lemma compare_three_other_order:
  "comparison_view
     (compare_projects [project_with ''b'' 550, project_with ''c'' 700, project_with ''a'' 400])
   = Inr (Inr [(PStr ''a'', 40, 1, 0), (PStr ''b'', 55, 2, 75 / 2), (PStr ''c'', 70, 3, 75)])"
  by (simp add: compare_eval_all)



lemma analyze_project_failed:
  assumes "validate_input (p(''_source'' := None)) = Inl err"
  shows "\<exists>f. analyze_project p = Inr (Inl f) \<and> f_error f = err
     \<and> f_source f = dict_get p ''_source'' (PStr ''unknown'')"
  using assms by (simp add: analyze_project_def Let_def)

lemma analyze_all_failed:
  assumes "\<forall>p \<in> set ps. isl (validate_input (p(''_source'' := None)))"
  shows "\<exists>as. analyze_all ps = Inr as \<and> successes as = []
     \<and> map f_error (failures as)
         = map (\<lambda>p. projl (validate_input (p(''_source'' := None)))) ps"
  using assms
proof (induction ps)
  case Nil
  then show ?case by simp
next
  case (Cons p ps)
  from Cons.prems have tail: "\<forall>p \<in> set ps. isl (validate_input (p(''_source'' := None)))"
    by (meson list.set_intros(2))
  from Cons.prems have head: "isl (validate_input (p(''_source'' := None)))"
    by (meson list.set_intros(1))
  from Cons.IH [OF tail] obtain as where as: "analyze_all ps = Inr as" "successes as = []"
    "map f_error (failures as)
         = map (\<lambda>p. projl (validate_input (p(''_source'' := None)))) ps"
    by blast
  from head obtain err where err: "validate_input (p(''_source'' := None)) = Inl err"
    unfolding isl_def by blast
  from analyze_project_failed [OF err] obtain f where
    f: "analyze_project p = Inr (Inl f)" "f_error f = err" by blast
  have 1: "analyze_all (p # ps) = Inr (Inl f # as)" using as(1) f(1) by simp
  have 2: "successes (Inl f # as) = []" using as(2) by simp
  have "projl (validate_input (p(''_source'' := None))) = err"
    by (simp only: err sum.sel)
  then have 3: "map f_error (failures (Inl f # as))
      = map (\<lambda>p. projl (validate_input (p(''_source'' := None)))) (p # ps)"
    by (simp only: failures.simps list.map f(2) as(3))
  from 1 2 3 show ?case by blast
qed

lemma compare_projects_no_valid:
  assumes "\<forall>p \<in> set ps. isl (validate_input (p(''_source'' := None)))"
  shows "\<exists>fs. compare_projects ps =
       Inr (Inl \<lparr>cf_code = ''NO_VALID_PROJECTS'',
                 cf_message = ''No projects could be analyzed successfully'',
                 cf_failed_projects = fs\<rparr>)
     \<and> map f_error fs = map (\<lambda>p. projl (validate_input (p(''_source'' := None)))) ps"
proof -
  from analyze_all_failed [OF assms] obtain as where
    "analyze_all ps = Inr as" "successes as = []"
    "map f_error (failures as)
         = map (\<lambda>p. projl (validate_input (p(''_source'' := None)))) ps"
    by blast
  then show ?thesis by (simp add: compare_projects_def)
qed

lemma compare_projects_keeps_failures:
  assumes "compare_projects ps = Inr (Inr b)"
  shows "\<exists>as. analyze_all ps = Inr as
     \<and> failed_projects b = (if failures as \<noteq> [] then Some (failures as) else None)
     \<and> failed_to_analyze b = length (failures as)"
  using assms
  by (auto simp: compare_projects_def Let_def split: sum.splits list.splits)

text \<open>
  C6. The claim holds where no project validates (\<open>compare_projects_no_valid\<close>) and
  wherever a comparison is returned (\<open>compare_projects_keeps_failures\<close>), but a batch with a
  valid project does not always succeed: when the worst ranked LCOE is 0.00 the investment
  recommendation divides by it. One project with capex 1 and 1000 MWh a year validates, its
  LCOE rounds to 0.00, and \<open>compare_projects\<close> raises \<open>ZeroDivisionError\<close>, with or without a
  failing project beside it.
\<close>

theorem C6_zero_lcoe_batch_raises:
  "compare_projects [near_free_project, Map.empty] = Inl ZeroDivisionError
   \<and> compare_projects [near_free_project] = Inl ZeroDivisionError"
  by (simp add: near_free_project_def compare_eval validate_eval calculate_eval)

text \<open>
  The near-free project validates with a reported LCOE of 0, the empty mapping fails
  validation, and the batch of both raises.
\<close>

theorem C6_zero_lcoe_batch_raises_witness:
  "validate_input near_free_project = Inr near_free_params
   \<and> map_sum id lcoe_usd_per_mwh (calculate_lcoe near_free_params) = Inr 0
   \<and> map_sum code id (validate_input Map.empty) = Inl ''MISSING_REQUIRED_FIELD''
   \<and> compare_projects [near_free_project, Map.empty] = Inl ZeroDivisionError"
proof -
  have "validate_input near_free_project = Inr near_free_params"
    by (simp add: validate_eval near_free_project_def near_free_params_def)
  moreover have "map_sum id lcoe_usd_per_mwh (calculate_lcoe near_free_params) = Inr 0"
    by (simp add: near_free_params_def calculate_eval)
  moreover have "map_sum code id (validate_input Map.empty) = Inl ''MISSING_REQUIRED_FIELD''"
    by (simp add: validate_eval)
  ultimately show ?thesis using C6_zero_lcoe_batch_raises by simp
qed

section \<open>Claims about the sensitivity analysis\<close>

















end
